theory Spec2Isabelle
  imports Main "HOL-Library.Word"
begin

section \<open>The cluster members manager (cluster/members\_manager.cc)\<close>

text \<open>
  A shallow embedding of \<^verbatim>\<open>cluster::members_manager\<close>. Each member function becomes a
  HOL function over an explicit state record; a failed \<^verbatim>\<open>vassert\<close> (process abort) is the
  value \<open>None\<close>; a \<^verbatim>\<open>result<T>\<close> is a sum with the error code on the left. Outcomes
  of the consensus layer, of outbound RPCs and of the feature table are inputs of the
  model (the record \<open>raft0\<close> and the \<open>env\<close> records).
\<close>

subsection \<open>Identifiers\<close>

text \<open>
  \<^verbatim>\<open>model::node_id\<close> is a named \<^verbatim>\<open>int32_t\<close>: a 32-bit word read as two's complement
  (\<open>sint\<close>), so \<open>+\<close> wraps. \<^verbatim>\<open>model::node_uuid\<close> is a 16-byte value; it is kept as its
  byte sequence. \<^verbatim>\<open>model::offset\<close> is a named \<^verbatim>\<open>int64_t\<close> that the manager only
  compares and copies, so it is an integer here.
\<close>

type_synonym node_id = "32 word"
type_synonym node_uuid = "8 word list"
type_synonym offset = int

definition INT_MAX :: node_id where
  "INT_MAX = 0x7FFFFFFF"

definition unassigned_node_id :: node_id where
  "unassigned_node_id = - 1"

definition node_uuid_length :: nat where
  "node_uuid_length = 16"

text \<open>\<^verbatim>\<open>std::max\<close> on node ids compares the signed values.\<close>

definition max_node_id :: "node_id \<Rightarrow> node_id \<Rightarrow> node_id" where
  "max_node_id a b = (if sint a < sint b then b else a)"

subsection \<open>Brokers and the members table\<close>

text \<open>
  Modelled from the spec: \<^verbatim>\<open>model::broker\<close>, \<^verbatim>\<open>model::broker_endpoint\<close> and
  \<^verbatim>\<open>net::unresolved_address\<close> (model/metadata.h) are not among the sources. A broker
  record carries its node id, its RPC listener address, its advertised Kafka listeners
  (an ordered sequence of named endpoints), an optional rack and the properties, of which
  the manager reads \<open>cores\<close>. Equality is field-wise.
\<close>

record unresolved_address =
  host :: string
  port :: nat

record broker_endpoint =
  name :: string
  address :: unresolved_address

record broker =
  broker_id :: node_id
  kafka_advertised_listeners :: "broker_endpoint list"
  rpc_address :: unresolved_address
  rack :: "string option"
  cores :: nat

datatype membership_state = Active | Draining | Drained | Decommissioning

text \<open>
  Modelled from the spec: \<^verbatim>\<open>cluster::members_table\<close> (cluster/members\_table.h) is not
  among the sources. A table holds the brokers by id (\<^verbatim>\<open>cache_t\<close>, a hash map: the list
  is its iteration order, \<open>map_of\<close> its lookup) and the tombstones of removed brokers.
\<close>

record node_metadata =
  broker :: broker
  state :: membership_state
  update_offset :: offset

record members_table =
  nodes :: "(node_id \<times> node_metadata) list"
  removed_nodes :: "node_id \<rightharpoonup> node_metadata"

definition get_node_metadata_ref :: "members_table \<Rightarrow> node_id \<Rightarrow> node_metadata option" where
  "get_node_metadata_ref m n = map_of (nodes m) n"

definition contains :: "members_table \<Rightarrow> node_id \<Rightarrow> bool" where
  "contains m n = (map_of (nodes m) n \<noteq> None)"

definition get_removed_node_metadata_ref :: "members_table \<Rightarrow> node_id \<Rightarrow> node_metadata option" where
  "get_removed_node_metadata_ref m n = removed_nodes m n"

text \<open>
  \<^verbatim>\<open>ss::sharded<members_table>\<close>: one instance per shard. \<open>local\<close> is the instance of
  the shard the manager runs on, \<open>others\<close> the instances of the remaining shards.
\<close>

datatype 'a sharded = Sharded (local: 'a) (others: "'a list")

definition invoke_on_all :: "('a \<Rightarrow> 'a) \<Rightarrow> 'a sharded \<Rightarrow> 'a sharded" where
  "invoke_on_all f s = Sharded (f (local s)) (map f (others s))"

definition all_shards :: "'a sharded \<Rightarrow> 'a list" where
  "all_shards s = local s # others s"

subsection \<open>Error codes, updates and the manager's state\<close>

text \<open>
  A \<^verbatim>\<open>std::error_code\<close> is a category and a value: \<^verbatim>\<open>cluster::errc\<close> for the codes the
  manager makes itself, the consensus layer's and the RPC layer's categories for the codes
  it passes through.
\<close>

datatype errc =
    success
  | invalid_request
  | invalid_node_operation
  | invalid_configuration_update
  | no_leader_controller
  | seed_servers_exhausted
  | join_request_dispatch_error

datatype error_code = Cluster errc | Raft nat | Rpc nat

datatype node_update_type = added | decommissioned | recommissioned | reallocation_finished

record node_update =
  update_id :: node_id
  update_type :: node_update_type
  update_at :: offset

text \<open>
  Calls to the partition allocator and to the drain manager are kept as a log of the
  calls made, in order.
\<close>

datatype allocator_call =
    Update_allocation_nodes "broker list"
  | Allocator_decommission_node node_id
  | Allocator_recommission_node node_id

datatype drain_call = Drain | Restore

text \<open>
  The members of \<^verbatim>\<open>members_manager\<close> that the modelled functions read or write.
  \<^verbatim>\<open>_update_queue.push_eventually\<close> appends to \<open>update_queue\<close>; waiting for room in
  the bounded queue belongs to the scheduler and is not part of this sequential model.
  The connection cache maps a node id to the address its client connects to.
\<close>

record members_manager =
  self :: broker
  id_by_uuid :: "node_uuid \<rightharpoonup> node_id"
  next_assigned_id :: node_id
  last_connection_update_offset :: offset
  update_queue :: "node_update list"
  members_tables :: "members_table sharded"
  connection_cache :: "node_id \<rightharpoonup> unresolved_address"
  allocator_calls :: "allocator_call list"
  drain_calls :: "drain_call list"

subsection \<open>The id registry\<close>

text \<open>
  \<^verbatim>\<open>try_register_node_id\<close>: aborts on the unassigned id; binds an unknown UUID to the
  requested id; for a known UUID answers whether its id is the requested one.
\<close>

definition try_register_node_id ::
  "node_id \<Rightarrow> node_uuid \<Rightarrow> members_manager \<Rightarrow> (bool \<times> members_manager) option" where
  "try_register_node_id requested_node_id requested_node_uuid st =
     (if requested_node_id = unassigned_node_id then None
      else case id_by_uuid st requested_node_uuid of
             None \<Rightarrow>
               Some (True, st\<lparr>id_by_uuid := (id_by_uuid st)(requested_node_uuid \<mapsto> requested_node_id)\<rparr>)
           | Some node_id \<Rightarrow> Some (node_id = requested_node_id, st))"

text \<open>
  The \<^verbatim>\<open>while\<close> loop of \<^verbatim>\<open>get_or_assign_node_id\<close> over \<^verbatim>\<open>_next_assigned_id\<close>. The result
  is the flag "returned \<^verbatim>\<open>std::nullopt\<close> from inside the loop" and the counter's value when
  the loop is left.
\<close>

function skip_taken_ids :: "members_table \<Rightarrow> node_id \<Rightarrow> bool \<times> node_id" where
  "skip_taken_ids m n =
     (if contains m n \<or> get_removed_node_metadata_ref m n \<noteq> None
      then (if n = INT_MAX then (True, n) else skip_taken_ids m (n + 1))
      else (False, n))"
  by pat_completeness auto

lemma sint_INT_MAX: "sint INT_MAX = 2147483647"
  by (simp add: INT_MAX_def)

lemma sint_node_id_range: "- 2147483648 \<le> sint (n :: node_id) \<and> sint n \<le> 2147483647"
  using sint_lt [of n] sint_ge [of n] by simp

lemma sint_below_INT_MAX:
  assumes "n \<noteq> INT_MAX"
  shows "sint n < 2147483647"
proof -
  have "sint n \<noteq> sint INT_MAX"
    using assms by (auto dest: signed_word_eqI)
  then show ?thesis
    using sint_node_id_range [of n] by (simp add: sint_INT_MAX)
qed

lemma sint_succ:
  assumes "n \<noteq> INT_MAX"
  shows "sint (n + 1 :: node_id) = sint n + 1"
proof -
  have r: "- 2147483648 \<le> sint n + 1 \<and> sint n + 1 < 2147483648"
    using sint_node_id_range [of n] sint_below_INT_MAX [OF assms] by simp
  have "sint (n + 1) = signed_take_bit 31 (sint n + 1)"
    by (simp add: sint_word_ariths)
  also have "\<dots> = sint n + 1"
    using r by (simp add: signed_take_bit_int_eq_self)
  finally show ?thesis .
qed

termination skip_taken_ids
proof (relation "measure (\<lambda>(m, n). nat (2147483647 - sint n))")
  show "wf (measure (\<lambda>(m, n). nat (2147483647 - sint n)))"
    by simp
next
  fix m :: members_table and n :: node_id
  assume "n \<noteq> INT_MAX"
  then show "((m, n + 1), (m, n)) \<in> measure (\<lambda>(m, n). nat (2147483647 - sint n))"
    using sint_succ [of n] sint_below_INT_MAX [of n] by simp
qed

declare skip_taken_ids.simps [simp del]

text \<open>
  \<^verbatim>\<open>get_or_assign_node_id\<close>: a bound UUID keeps its id. Otherwise the loop moves
  \<^verbatim>\<open>_next_assigned_id\<close>; \<^verbatim>\<open>std::nullopt\<close> is returned from inside the loop or when the
  counter stands at \<^verbatim>\<open>INT_MAX\<close> after it (the counter keeps the value it reached);
  else the UUID is bound to the counter's value, which is returned and then incremented.
\<close>

definition get_or_assign_node_id ::
  "node_uuid \<Rightarrow> members_manager \<Rightarrow> node_id option \<times> members_manager" where
  "get_or_assign_node_id uuid st =
     (case id_by_uuid st uuid of
        Some node_id \<Rightarrow> (Some node_id, st)
      | None \<Rightarrow>
          (case skip_taken_ids (local (members_tables st)) (next_assigned_id st) of
             (True, n) \<Rightarrow> (None, st\<lparr>next_assigned_id := n\<rparr>)
           | (False, n) \<Rightarrow>
               if n = INT_MAX then (None, st\<lparr>next_assigned_id := n\<rparr>)
               else (Some n, st\<lparr>id_by_uuid := (id_by_uuid st)(uuid \<mapsto> n),
                                  next_assigned_id := n + 1\<rparr>)))"

text \<open>
  \<^verbatim>\<open>get_node_id\<close>: the id of a registered UUID; the \<^verbatim>\<open>vassert\<close> fails for an unknown
  one.
\<close>

definition get_node_id :: "node_uuid \<Rightarrow> members_manager \<Rightarrow> node_id option" where
  "get_node_id uuid st = id_by_uuid st uuid"

text \<open>
  \<^verbatim>\<open>apply_initial_node_uuid_map\<close>. The argument is a hash map; the list is the order in
  which the \<^verbatim>\<open>for\<close> loop meets its entries. The loop leaves at an id equal to
  \<^verbatim>\<open>INT_MAX\<close>, so \<open>i + 1\<close> is never computed for it.
\<close>

fun seed_next_assigned_id :: "(node_uuid \<times> node_id) list \<Rightarrow> node_id \<Rightarrow> node_id" where
  "seed_next_assigned_id [] n = n"
| "seed_next_assigned_id ((uuid, i) # rest) n =
     (if i = INT_MAX then i else seed_next_assigned_id rest (max_node_id n (i + 1)))"

definition apply_initial_node_uuid_map ::
  "(node_uuid \<times> node_id) list \<Rightarrow> members_manager \<Rightarrow> members_manager option" where
  "apply_initial_node_uuid_map initial st =
     (if id_by_uuid st \<noteq> Map.empty then None
      else Some (st\<lparr>next_assigned_id := seed_next_assigned_id initial (next_assigned_id st),
                    id_by_uuid := map_of initial\<rparr>))"

text \<open>
  The constructor's registry: no binding, and the counter at \<^verbatim>\<open>model::node_id(1)\<close>.
\<close>

definition initial_registry :: "members_manager \<Rightarrow> bool" where
  "initial_registry st = (id_by_uuid st = Map.empty \<and> next_assigned_id st = 1)"

text \<open>
  Sequences of registry calls. Between two calls the members tables may be replaced by any
  others (the consensus log drives them independently of the registry).
\<close>

datatype registry_call =
    Try_register node_id node_uuid
  | Get_or_assign node_uuid
  | Members_tables_change "members_table sharded"

fun run_registry_calls :: "registry_call list \<Rightarrow> members_manager \<Rightarrow> members_manager option" where
  "run_registry_calls [] st = Some st"
| "run_registry_calls (Try_register i uuid # calls) st =
     (case try_register_node_id i uuid st of
        None \<Rightarrow> None
      | Some (_, st') \<Rightarrow> run_registry_calls calls st')"
| "run_registry_calls (Get_or_assign uuid # calls) st =
     run_registry_calls calls (snd (get_or_assign_node_id uuid st))"
| "run_registry_calls (Members_tables_change tables # calls) st =
     run_registry_calls calls (st\<lparr>members_tables := tables\<rparr>)"

subsection \<open>The consensus group as the manager sees it\<close>

text \<open>
  Modelled from the spec: \<^verbatim>\<open>raft::group_configuration\<close> and \<^verbatim>\<open>raft::vnode\<close>
  (raft/group\_configuration.h) are not among the sources. A configuration lists the
  brokers of the controller group, is in state simple or joint, and in joint state carries
  the old configuration with its learners (demoted voters pending removal).
\<close>

record vnode =
  vnode_id :: node_id
  revision :: int

record group_nodes =
  voters :: "vnode list"
  learners :: "vnode list"

datatype configuration_state = simple | joint

record group_configuration =
  brokers :: "broker list"
  get_state :: configuration_state
  old_config :: "group_nodes option"

definition contains_broker :: "group_configuration \<Rightarrow> node_id \<Rightarrow> bool" where
  "contains_broker cfg n = list_ex (\<lambda>b. broker_id b = n) (brokers cfg)"

definition find_broker :: "group_configuration \<Rightarrow> node_id \<Rightarrow> broker option" where
  "find_broker cfg n = find (\<lambda>b. broker_id b = n) (brokers cfg)"

definition contains_address :: "group_configuration \<Rightarrow> unresolved_address \<Rightarrow> bool" where
  "contains_address cfg a = list_ex (\<lambda>b. rpc_address b = a) (brokers cfg)"

text \<open>What \<^verbatim>\<open>_raft0\<close> answers when the manager asks it.\<close>

record raft0 =
  config :: group_configuration
  get_leader_id :: "node_id option"
  is_elected_leader :: bool

text \<open>
  \<^verbatim>\<open>if (!ec)\<close> on a \<^verbatim>\<open>std::error_code\<close> tests its value against zero, whatever the
  category; \<^verbatim>\<open>errc::success\<close> is zero.
\<close>

definition is_error :: "error_code \<Rightarrow> bool" where
  "is_error ec = (case ec of Cluster e \<Rightarrow> e \<noteq> success | Raft v \<Rightarrow> v \<noteq> 0 | Rpc v \<Rightarrow> v \<noteq> 0)"

subsection \<open>Raft configuration batches\<close>

record changed_nodes =
  cn_added :: "broker list"
  cn_updated :: "broker list"
  cn_removed :: "node_id list"

definition calculate_changed_nodes :: "group_configuration \<Rightarrow> members_manager \<Rightarrow> changed_nodes" where
  "calculate_changed_nodes cfg st =
     (let m = local (members_tables st) in
      \<lparr>cn_added = filter (\<lambda>cfg_broker. get_node_metadata_ref m (broker_id cfg_broker) = None) (brokers cfg),
       cn_updated =
         filter (\<lambda>cfg_broker.
                   case get_node_metadata_ref m (broker_id cfg_broker) of
                     None \<Rightarrow> False
                   | Some node \<Rightarrow> broker node \<noteq> cfg_broker)
           (brokers cfg),
       cn_removed = map fst (filter (\<lambda>(i, b). \<not> contains_broker cfg i) (nodes m))\<rparr>)"

text \<open>
  Modelled from the spec: \<^verbatim>\<open>remove_broker_client\<close> and \<^verbatim>\<open>update_broker_client\<close>
  (cluster/cluster\_utils.h) are not among the sources. The first removes the client of an
  id from the connection cache, the second adds it or replaces it by one for the given
  address.
\<close>

definition remove_broker_client ::
  "node_id \<Rightarrow> (node_id \<rightharpoonup> unresolved_address) \<Rightarrow> (node_id \<rightharpoonup> unresolved_address)" where
  "remove_broker_client n cache = cache(n := None)"

definition update_broker_client ::
  "node_id \<Rightarrow> unresolved_address \<Rightarrow> (node_id \<rightharpoonup> unresolved_address) \<Rightarrow> (node_id \<rightharpoonup> unresolved_address)" where
  "update_broker_client n a cache = cache(n \<mapsto> a)"

definition update_connections :: "changed_nodes \<Rightarrow> members_manager \<Rightarrow> members_manager" where
  "update_connections changed st =
     (let self_id = broker_id (self st);
          c1 = fold (\<lambda>i c. if i = self_id then c else remove_broker_client i c)
                 (cn_removed changed) (connection_cache st);
          c2 = fold (\<lambda>b c. if broker_id b = self_id then c
                             else update_broker_client (broker_id b) (rpc_address b) c)
                 (cn_added changed) c1;
          c3 = fold (\<lambda>b c. if broker_id b = self_id then c
                             else update_broker_client (broker_id b) (rpc_address b) c)
                 (cn_updated changed) c2
      in st\<lparr>connection_cache := c3\<rparr>)"

text \<open>
  \<^verbatim>\<open>handle_raft0_cfg_update\<close>. \<^verbatim>\<open>members_table::update_brokers\<close> is not among the
  sources and is the parameter \<open>update_brokers\<close>. The \<^verbatim>\<open>co_return\<close> for an offset that is
  not newer than \<^verbatim>\<open>_last_connection_update_offset\<close> leaves the function before the
  connections are updated and before the loop that pushes the added nodes.
\<close>

definition handle_raft0_cfg_update ::
  "(offset \<Rightarrow> broker list \<Rightarrow> members_table \<Rightarrow> members_table) \<Rightarrow>
   group_configuration \<Rightarrow> offset \<Rightarrow> members_manager \<Rightarrow> members_manager" where
  "handle_raft0_cfg_update update_brokers cfg off st =
     (let st1 = st\<lparr>allocator_calls := allocator_calls st @ [Update_allocation_nodes (brokers cfg)]\<rparr>;
          diff = calculate_changed_nodes cfg st1;
          added_nodes = cn_added diff;
          st2 = st1\<lparr>members_tables :=
                      invoke_on_all (update_brokers off (brokers cfg)) (members_tables st1)\<rparr>
      in if off \<le> last_connection_update_offset st2 then st2
         else
           (let st3 = (update_connections diff st2)\<lparr>last_connection_update_offset := off\<rparr>
            in st3\<lparr>update_queue := update_queue st3 @
                  map (\<lambda>b. \<lparr>update_id = broker_id b, update_type = added, update_at = off\<rparr>)
                    added_nodes\<rparr>))"

subsection \<open>Controller commands\<close>

datatype command =
    Decommission_node_cmd node_id
  | Recommission_node_cmd node_id
  | Finish_reallocations_cmd node_id
  | Maintenance_mode_cmd node_id bool
  | Register_node_uuid_cmd node_uuid "node_id option"

text \<open>
  A committed batch after deserialisation: a raft configuration batch with its base
  offset, record count and configuration, or a command batch with its base offset and
  command.
\<close>

datatype record_batch =
    Raft_configuration_batch offset nat group_configuration
  | Command_batch offset command

text \<open>
  \<^verbatim>\<open>dispatch_updates_to_cores\<close>. \<^verbatim>\<open>members_table::apply\<close> is not among the sources and
  is the parameter \<open>table_apply\<close>: it answers an error code and the table after the
  command. The result of the first shard is the sentinel; a shard that answers otherwise
  fails the \<^verbatim>\<open>vassert\<close>.
\<close>

definition dispatch_updates_to_cores ::
  "(offset \<Rightarrow> command \<Rightarrow> members_table \<Rightarrow> error_code \<times> members_table) \<Rightarrow>
   offset \<Rightarrow> command \<Rightarrow> members_manager \<Rightarrow> (error_code \<times> members_manager) option" where
  "dispatch_updates_to_cores table_apply off cmd st =
     (let results = map (\<lambda>mt. fst (table_apply off cmd mt)) (all_shards (members_tables st));
          st' = st\<lparr>members_tables :=
                     invoke_on_all (\<lambda>mt. snd (table_apply off cmd mt)) (members_tables st)\<rparr>;
          sentinel = fst (table_apply off cmd (local (members_tables st)))
      in if list_all (\<lambda>res. sentinel = res) results then Some (sentinel, st') else None)"

definition push_eventually :: "node_update \<Rightarrow> members_manager \<Rightarrow> members_manager" where
  "push_eventually u st = st\<lparr>update_queue := update_queue st @ [u]\<rparr>"

text \<open>The visitor's case for \<^verbatim>\<open>register_node_uuid_cmd\<close>.\<close>

definition apply_register_node_uuid ::
  "node_uuid \<Rightarrow> node_id option \<Rightarrow> members_manager \<Rightarrow> (error_code \<times> members_manager) option" where
  "apply_register_node_uuid uuid requested_node_id st =
     (case requested_node_id of
        Some requested \<Rightarrow>
          (case try_register_node_id requested uuid st of
             None \<Rightarrow> None
           | Some (ok, st') \<Rightarrow>
               Some (if ok then Cluster success else Cluster join_request_dispatch_error, st'))
      | None \<Rightarrow>
          (case get_or_assign_node_id uuid st of
             (None, st') \<Rightarrow> Some (Cluster invalid_node_operation, st')
           | (Some node_id, st') \<Rightarrow> Some (Cluster success, st')))"

text \<open>
  \<^verbatim>\<open>apply_update\<close> with \<^verbatim>\<open>apply_raft_configuration_batch\<close>. In joint state the code reads
  \<^verbatim>\<open>old_config()->learners\<close> without a test; a joint configuration without an old
  configuration is outside the function's contract and modelled as an abort.
\<close>

definition apply_update ::
  "(offset \<Rightarrow> command \<Rightarrow> members_table \<Rightarrow> error_code \<times> members_table) \<Rightarrow>
   (offset \<Rightarrow> broker list \<Rightarrow> members_table \<Rightarrow> members_table) \<Rightarrow>
   raft0 \<Rightarrow> record_batch \<Rightarrow> members_manager \<Rightarrow> (error_code \<times> members_manager) option" where
  "apply_update table_apply update_brokers raft b st =
     (case b of
        Raft_configuration_batch off record_count cfg \<Rightarrow>
          if record_count \<noteq> 1 then None
          else Some (Cluster success, handle_raft0_cfg_update update_brokers cfg off st)
      | Command_batch off cmd \<Rightarrow>
          (case cmd of
             Decommission_node_cmd n \<Rightarrow>
               (case dispatch_updates_to_cores table_apply off cmd st of
                  None \<Rightarrow> None
                | Some (error, st1) \<Rightarrow>
                    if \<not> is_error error
                    then Some (error,
                      push_eventually \<lparr>update_id = n, update_type = decommissioned, update_at = off\<rparr>
                        (st1\<lparr>allocator_calls := allocator_calls st1 @ [Allocator_decommission_node n]\<rparr>))
                    else Some (error, st1))
           | Recommission_node_cmd n \<Rightarrow>
               (let raft0_cfg = config raft;
                    proceed =
                      (case dispatch_updates_to_cores table_apply off cmd st of
                         None \<Rightarrow> None
                       | Some (error, st1) \<Rightarrow>
                           if \<not> is_error error
                           then Some (error,
                             push_eventually \<lparr>update_id = n, update_type = recommissioned, update_at = off\<rparr>
                               (st1\<lparr>allocator_calls := allocator_calls st1 @ [Allocator_recommission_node n]\<rparr>))
                           else Some (error, st1))
                in if get_state raft0_cfg = joint
                   then (case old_config raft0_cfg of
                           None \<Rightarrow> None
                         | Some old \<Rightarrow>
                             if find (\<lambda>vn. vnode_id vn = n) (learners old) \<noteq> None
                             then Some (Cluster invalid_node_operation, st)
                             else proceed)
                   else proceed)
           | Finish_reallocations_cmd n \<Rightarrow>
               Some (Cluster success,
                 push_eventually \<lparr>update_id = n, update_type = reallocation_finished, update_at = off\<rparr> st)
           | Maintenance_mode_cmd n enabled \<Rightarrow>
               (case dispatch_updates_to_cores table_apply off cmd st of
                  None \<Rightarrow> None
                | Some (error, st1) \<Rightarrow>
                    if \<not> is_error error \<and> n = broker_id (self st1)
                    then Some (error,
                      st1\<lparr>drain_calls := drain_calls st1 @ [if enabled then Drain else Restore]\<rparr>)
                    else Some (error, st1))
           | Register_node_uuid_cmd uuid requested_node_id \<Rightarrow>
               apply_register_node_uuid uuid requested_node_id st))"

subsection \<open>Configuration updates\<close>

text \<open>
  \<^verbatim>\<open>check_result_configuration\<close> walks the brokers of the members table and answers the
  first error it meets. The error carries what the source formats into its message.
\<close>

datatype configuration_error =
    Core_count_decrease
  | Duplicate_rpc_endpoint unresolved_address node_id
  | Duplicate_kafka_endpoint broker_endpoint node_id

fun check_result_configuration ::
  "(node_id \<times> node_metadata) list \<Rightarrow> broker \<Rightarrow> configuration_error option" where
  "check_result_configuration [] to_update = None"
| "check_result_configuration ((i, current) # rest) to_update =
     (if i = broker_id to_update
      then (if cores (broker current) > cores to_update then Some Core_count_decrease
            else check_result_configuration rest to_update)
      else if rpc_address (broker current) = rpc_address to_update
      then Some (Duplicate_rpc_endpoint (rpc_address to_update) i)
      else (case find (\<lambda>current_ep.
                         list_ex (\<lambda>ep. current_ep = ep) (kafka_advertised_listeners to_update))
                   (kafka_advertised_listeners (broker current)) of
              Some current_ep \<Rightarrow> Some (Duplicate_kafka_endpoint current_ep i)
            | None \<Rightarrow> check_result_configuration rest to_update))"

record configuration_update_request =
  node :: broker
  target_node :: node_id

record configuration_update_reply =
  update_success :: bool

text \<open>
  An outbound RPC either throws or answers a \<^verbatim>\<open>result\<close>, whose error is a code of the
  RPC layer. The consensus layer answers a code of its own category (zero: no error).
\<close>

datatype 'a rpc_outcome = Rpc_throws | Rpc_answers "nat + 'a"

definition rpc_result :: "'a rpc_outcome \<Rightarrow> error_code + 'a" where
  "rpc_result r =
     (case r of
        Rpc_throws \<Rightarrow> Inl (Cluster join_request_dispatch_error)
      | Rpc_answers (Inl v) \<Rightarrow> Inl (Rpc v)
      | Rpc_answers (Inr reply) \<Rightarrow> Inr reply)"

record update_env =
  update_group_member_result :: nat
  update_node_configuration_rpc :: "configuration_update_reply rpc_outcome"

definition handle_configuration_update_request ::
  "raft0 \<Rightarrow> update_env \<Rightarrow> configuration_update_request \<Rightarrow> members_manager \<Rightarrow>
   (error_code + configuration_update_reply) \<times> members_manager" where
  "handle_configuration_update_request raft env req st =
     (if target_node req \<noteq> broker_id (self st)
      then (Inr \<lparr>update_success = False\<rparr>, st)
      else
        (case check_result_configuration (nodes (local (members_tables st))) (node req) of
           Some err \<Rightarrow> (Inl (Cluster invalid_configuration_update), st)
         | None \<Rightarrow>
             (let st1 = update_connections
                          \<lparr>cn_added = [], cn_updated = [node req], cn_removed = []\<rparr> st
              in case get_leader_id raft of
                   None \<Rightarrow> (Inl (Cluster no_leader_controller), st1)
                 | Some leader_id \<Rightarrow>
                     if leader_id = broker_id (self st1)
                     then (if update_group_member_result env \<noteq> 0
                           then (Inl (Raft (update_group_member_result env)), st1)
                           else (Inr \<lparr>update_success = True\<rparr>, st1))
                     else
                       (case get_node_metadata_ref (local (members_tables st1)) leader_id of
                          None \<Rightarrow> (Inl (Cluster no_leader_controller), st1)
                        | Some leader \<Rightarrow>
                            (rpc_result (update_node_configuration_rpc env), st1)))))"

subsection \<open>Join requests\<close>

record join_node_request =
  logical_version :: int
  req_node_uuid :: "8 word list"
  req_node :: broker

record join_node_reply =
  join_success :: bool
  join_id :: node_id

text \<open>
  What the surroundings answer during one join request: whether the feature
  \<^verbatim>\<open>node_id_assignment\<close> is active; whether \<^verbatim>\<open>replicate_and_wait\<close> fails before the
  command is applied (and with which code); the leader's answer to a forwarded request;
  the result of \<^verbatim>\<open>add_group_members\<close>; and the surroundings of a configuration update.
\<close>

record join_env =
  node_id_assignment_supported :: bool
  replication_failure :: "error_code option"
  join_node_rpc :: "join_node_reply rpc_outcome"
  add_group_members_result :: nat
  configuration_update_env :: update_env

text \<open>
  \<^verbatim>\<open>replicate_new_node_uuid\<close>: when replication does not fail, the command is applied to
  this manager before \<^verbatim>\<open>replicate_and_wait\<close> answers with the result of applying it.
\<close>

definition replicate_new_node_uuid ::
  "join_env \<Rightarrow> node_uuid \<Rightarrow> node_id option \<Rightarrow> members_manager \<Rightarrow>
   ((error_code + join_node_reply) \<times> members_manager) option" where
  "replicate_new_node_uuid env uuid requested st =
     (case (case replication_failure env of
              Some e \<Rightarrow> Some (e, st)
            | None \<Rightarrow> apply_register_node_uuid uuid requested st) of
        None \<Rightarrow> None
      | Some (ec, st') \<Rightarrow>
          if ec \<noteq> Cluster success then Some (Inl ec, st')
          else
            (case get_node_id uuid st' of
               None \<Rightarrow> None
             | Some assigned_node_id \<Rightarrow>
                 if requested \<noteq> None \<and> Some assigned_node_id \<noteq> requested
                 then Some (Inl (Cluster invalid_request), st')
                 else Some (Inr \<lparr>join_success = True, join_id = assigned_node_id\<rparr>, st')))"

definition dispatch_join_to_leader :: "raft0 \<Rightarrow> join_env \<Rightarrow> error_code + join_node_reply" where
  "dispatch_join_to_leader raft env =
     (case get_leader_id raft of
        None \<Rightarrow> Inl (Cluster no_leader_controller)
      | Some leader_id \<Rightarrow>
          (case find_broker (config raft) leader_id of
             None \<Rightarrow> Inl (Cluster no_leader_controller)
           | Some leader \<Rightarrow> rpc_result (join_node_rpc env)))"

text \<open>
  The tail of \<^verbatim>\<open>handle_join_request\<close>, from the test whether the consensus configuration
  already contains the broker.
\<close>

definition add_to_group ::
  "raft0 \<Rightarrow> join_env \<Rightarrow> join_node_request \<Rightarrow> members_manager \<Rightarrow>
   (error_code + join_node_reply) \<times> members_manager" where
  "add_to_group raft env req st =
     (let node_id = broker_id (req_node req) in
      if contains_broker (config raft) node_id
      then
        (case handle_configuration_update_request raft (configuration_update_env env)
                \<lparr>node = req_node req, target_node = broker_id (self st)\<rparr> st of
           (Inr r, st') \<Rightarrow>
             (Inr \<lparr>join_success = update_success r,
                   join_id = (if update_success r then node_id else unassigned_node_id)\<rparr>, st')
         | (Inl e, st') \<Rightarrow> (Inl e, st'))
      else if \<not> node_id_assignment_supported env
              \<and> contains_address (config raft) (rpc_address (req_node req))
      then (Inr \<lparr>join_success = False, join_id = unassigned_node_id\<rparr>, st)
      else
        (let st1 = (if node_id \<noteq> broker_id (self st)
                    then st\<lparr>connection_cache :=
                             update_broker_client node_id (rpc_address (req_node req))
                               (connection_cache st)\<rparr>
                    else st)
         in if add_group_members_result env = 0
            then (Inr \<lparr>join_success = True, join_id = node_id\<rparr>, st1)
            else (Inl (Raft (add_group_members_result env)), st1)))"

definition handle_join_request ::
  "raft0 \<Rightarrow> join_env \<Rightarrow> join_node_request \<Rightarrow> members_manager \<Rightarrow>
   ((error_code + join_node_reply) \<times> members_manager) option" where
  "handle_join_request raft env req st =
     (let req_has_node_uuid = (req_node_uuid req \<noteq> []);
          req_node_id = (if 0 \<le> sint (broker_id (req_node req))
                         then Some (broker_id (req_node req)) else None);
          uuid = req_node_uuid req
      in
      if node_id_assignment_supported env \<and> \<not> req_has_node_uuid
      then Some (Inl (Cluster invalid_request), st)
      else if \<not> node_id_assignment_supported env \<and> req_node_id = None
      then Some (Inl (Cluster invalid_request), st)
      else if req_has_node_uuid \<and> length (req_node_uuid req) \<noteq> node_uuid_length
      then Some (Inl (Cluster invalid_request), st)
      else if req_node_id = None \<and> \<not> req_has_node_uuid
      then Some (Inl (Cluster invalid_request), st)
      else if \<not> is_elected_leader raft
      then Some (dispatch_join_to_leader raft env, st)
      else if node_id_assignment_supported env \<and> req_has_node_uuid
      then
        (case req_node_id of
           None \<Rightarrow>
             (case id_by_uuid st uuid of
                None \<Rightarrow> replicate_new_node_uuid env uuid req_node_id st
              | Some bound \<Rightarrow> Some (Inr \<lparr>join_success = True, join_id = bound\<rparr>, st))
         | Some requested \<Rightarrow>
             (case id_by_uuid st uuid of
                None \<Rightarrow>
                  (case replicate_new_node_uuid env uuid req_node_id st of
                     None \<Rightarrow> None
                   | Some (Inl e, st') \<Rightarrow> Some (Inl e, st')
                   | Some (Inr r, st') \<Rightarrow>
                       if \<not> join_success r then Some (Inr r, st')
                       else Some (add_to_group raft env req st'))
              | Some bound \<Rightarrow>
                  if requested \<noteq> bound
                  then Some (Inr \<lparr>join_success = False, join_id = unassigned_node_id\<rparr>, st)
                  else if get_removed_node_metadata_ref (local (members_tables st)) bound \<noteq> None
                  then Some (Inr \<lparr>join_success = False, join_id = unassigned_node_id\<rparr>, st)
                  else Some (add_to_group raft env req st)))
      else Some (add_to_group raft env req st))"

text \<open>
  An id is taken when the members table of the manager's shard holds it or holds a
  tombstone for it: the condition of the loop in \<^verbatim>\<open>get_or_assign_node_id\<close>.
\<close>

definition taken :: "members_table \<Rightarrow> node_id \<Rightarrow> bool" where
  "taken m n = (contains m n \<or> get_removed_node_metadata_ref m n \<noteq> None)"

subsection \<open>A conflict between brokers, in the specification's words\<close>

text \<open>
  The conflict between an updated broker and one entry of the members table, written from
  the specification's words (not from the code): the entry has the same id and the update
  decreases the core count, or the entry has a different id and shares the RPC address or
  an advertised Kafka endpoint with the update. It is compared with
  \<^verbatim>\<open>check_result_configuration\<close> below.
\<close>

definition conflicts_with :: "broker \<Rightarrow> node_id \<times> node_metadata \<Rightarrow> bool" where
  "conflicts_with to_update entry =
     (case entry of (i, current) \<Rightarrow>
        (i = broker_id to_update \<and> cores to_update < cores (broker current))
        \<or> (i \<noteq> broker_id to_update
            \<and> (rpc_address (broker current) = rpc_address to_update
                \<or> (\<exists>ep \<in> set (kafka_advertised_listeners (broker current)).
                      ep \<in> set (kafka_advertised_listeners to_update)))))"

subsection \<open>Concrete managers for the examples\<close>

definition uuid_a :: node_uuid where
  "uuid_a = replicate 16 1"

definition uuid_b :: node_uuid where
  "uuid_b = replicate 16 2"

definition broker_of :: "node_id \<Rightarrow> nat \<Rightarrow> nat \<Rightarrow> broker" where
  "broker_of n p c =
     \<lparr>broker_id = n, kafka_advertised_listeners = [],
      rpc_address = \<lparr>host = ''redpanda'', port = p\<rparr>, rack = None, cores = c\<rparr>"

definition metadata_of :: "broker \<Rightarrow> node_metadata" where
  "metadata_of b = \<lparr>broker = b, state = Active, update_offset = 0\<rparr>"

definition table_of :: "broker list \<Rightarrow> node_id list \<Rightarrow> members_table" where
  "table_of bs tombstones =
     \<lparr>nodes = map (\<lambda>b. (broker_id b, metadata_of b)) bs,
      removed_nodes = map_of (map (\<lambda>n. (n, metadata_of (broker_of n 9092 4))) tombstones)\<rparr>"

text \<open>
  The manager as its constructor leaves it, on one shard, with the given members table and
  broker 0 as itself.
\<close>

definition manager_with :: "members_table \<Rightarrow> members_manager" where
  "manager_with m =
     \<lparr>self = broker_of 0 33145 4, id_by_uuid = Map.empty, next_assigned_id = 1,
      last_connection_update_offset = 0, update_queue = [],
      members_tables = Sharded m [], connection_cache = Map.empty,
      allocator_calls = [], drain_calls = []\<rparr>"

text \<open>
  A consensus group in joint state: broker 2 is a learner of the old configuration, and
  this node (broker 0) is the elected leader.
\<close>

definition joint_raft0 :: raft0 where
  "joint_raft0 =
     \<lparr>config = \<lparr>brokers = [broker_of 0 33145 4, broker_of 2 33146 4], get_state = joint,
                 old_config = Some \<lparr>voters = [\<lparr>vnode_id = 0, revision = 0\<rparr>],
                                    learners = [\<lparr>vnode_id = 2, revision = 0\<rparr>]\<rparr>\<rparr>,
      get_leader_id = Some 0, is_elected_leader = True\<rparr>"

text \<open>
  Stand-ins for the two functions of the members table that are parameters of the model:
  an \<^verbatim>\<open>apply\<close> that succeeds and stamps every entry with the offset, and an
  \<^verbatim>\<open>update_brokers\<close> that replaces the brokers by those of the configuration.
\<close>

definition accepting_apply :: "offset \<Rightarrow> command \<Rightarrow> members_table \<Rightarrow> error_code \<times> members_table" where
  "accepting_apply off cmd m = (Cluster success, m\<lparr>nodes := map (\<lambda>(i, md). (i, md\<lparr>update_offset := off\<rparr>)) (nodes m)\<rparr>)"

definition replacing_update_brokers :: "offset \<Rightarrow> broker list \<Rightarrow> members_table \<Rightarrow> members_table" where
  "replacing_update_brokers off bs m =
     m\<lparr>nodes := map (\<lambda>b. (broker_id b, \<lparr>broker = b, state = Active, update_offset = off\<rparr>)) bs\<rparr>"

text \<open>A consensus configuration in simple state with the given brokers.\<close>

definition cfg_of :: "broker list \<Rightarrow> group_configuration" where
  "cfg_of bs = \<lparr>brokers = bs, get_state = simple, old_config = None\<rparr>"

text \<open>A consensus group in simple state with the given brokers, led by broker 0.\<close>

definition raft0_led_by_self :: "broker list \<Rightarrow> raft0" where
  "raft0_led_by_self bs = \<lparr>config = cfg_of bs, get_leader_id = Some 0, is_elected_leader = True\<rparr>"

text \<open>
  Surroundings in which the consensus layer accepts every change, replication does not
  fail and outbound RPCs throw.
\<close>

definition calm_update_env :: update_env where
  "calm_update_env = \<lparr>update_group_member_result = 0, update_node_configuration_rpc = Rpc_throws\<rparr>"

definition calm_join_env :: "bool \<Rightarrow> join_env" where
  "calm_join_env active =
     \<lparr>node_id_assignment_supported = active, replication_failure = None,
      join_node_rpc = Rpc_throws, add_group_members_result = 0,
      configuration_update_env = calm_update_env\<rparr>"

text \<open>A join request of the given broker with the given UUID bytes.\<close>

definition join_request_of :: "8 word list \<Rightarrow> broker \<Rightarrow> join_node_request" where
  "join_request_of uuid b = \<lparr>logical_version = 7, req_node_uuid = uuid, req_node = b\<rparr>"

text \<open>
  The manager of broker 0 after broker 1, registered with \<open>uuid_a\<close>, was removed: the
  registry still binds \<open>uuid_a\<close> to 1 and the members table holds a tombstone for 1.
\<close>

definition manager_after_removal :: members_manager where
  "manager_after_removal =
     (manager_with (table_of [broker_of 0 33145 4] [1]))
       \<lparr>id_by_uuid := [uuid_a \<mapsto> 1], next_assigned_id := 2\<rparr>"

section \<open>Properties\<close>

subsection \<open>The loop over the taken ids\<close>

lemma skip_taken_ids_free: "\<not> taken m n \<Longrightarrow> skip_taken_ids m n = (False, n)"
  by (subst skip_taken_ids.simps) (simp add: taken_def)

lemma skip_taken_ids_exhausted: "taken m INT_MAX \<Longrightarrow> skip_taken_ids m INT_MAX = (True, INT_MAX)"
  by (subst skip_taken_ids.simps) (simp add: taken_def)

lemma skip_taken_ids_step:
  "taken m n \<Longrightarrow> n \<noteq> INT_MAX \<Longrightarrow> skip_taken_ids m n = skip_taken_ids m (n + 1)"
  by (subst skip_taken_ids.simps) (simp add: taken_def)

lemma skip_taken_ids_spec:
  "skip_taken_ids m n = (ex, k) \<Longrightarrow>
     sint n \<le> sint k \<and> (\<forall>i. sint n \<le> sint i \<and> sint i < sint k \<longrightarrow> taken m i) \<and>
     (if ex then k = INT_MAX \<and> taken m k else \<not> taken m k)"
proof (induction m n rule: skip_taken_ids.induct)
  case (1 m n)
  show ?case
  proof (cases "taken m n")
    case False
    then have "skip_taken_ids m n = (False, n)"
      by (rule skip_taken_ids_free)
    with "1.prems" False show ?thesis by auto
  next
    case True
    show ?thesis
    proof (cases "n = INT_MAX")
      case True
      with \<open>taken m n\<close> have "skip_taken_ids m n = (True, n)"
        by (simp add: skip_taken_ids_exhausted)
      with "1.prems" True \<open>taken m n\<close> show ?thesis by auto
    next
      case False
      with \<open>taken m n\<close> have eq: "skip_taken_ids m n = skip_taken_ids m (n + 1)"
        by (simp add: skip_taken_ids_step)
      have ih: "sint (n + 1) \<le> sint k \<and>
          (\<forall>i. sint (n + 1) \<le> sint i \<and> sint i < sint k \<longrightarrow> taken m i) \<and>
          (if ex then k = INT_MAX \<and> taken m k else \<not> taken m k)"
      proof (rule "1.IH")
        show "contains m n \<or> get_removed_node_metadata_ref m n \<noteq> None"
          using \<open>taken m n\<close> by (simp add: taken_def)
        show "n \<noteq> INT_MAX" by (fact False)
        show "skip_taken_ids m (n + 1) = (ex, k)" using "1.prems" eq by simp
      qed
      have s: "sint (n + 1) = sint n + 1" using False by (rule sint_succ)
      have "taken m i" if "sint n \<le> sint i" "sint i < sint k" for i
      proof (cases "sint i = sint n")
        case True
        then have "i = n" by (rule signed_word_eqI)
        with \<open>taken m n\<close> show ?thesis by simp
      next
        case False
        with that s ih show ?thesis by simp
      qed
      with ih s show ?thesis by (auto split: if_splits)
    qed
  qed
qed

text \<open>What one call of get_or_assign does, by cases.\<close>

lemma get_or_assign_bound:
  "id_by_uuid st uuid = Some n \<Longrightarrow> get_or_assign_node_id uuid st = (Some n, st)"
  by (simp add: get_or_assign_node_id_def)

lemma get_or_assign_unbound:
  assumes "id_by_uuid st uuid = None"
  shows "(\<exists>n. get_or_assign_node_id uuid st =
            (Some n, st\<lparr>id_by_uuid := (id_by_uuid st)(uuid \<mapsto> n), next_assigned_id := n + 1\<rparr>)
          \<and> n \<noteq> INT_MAX
          \<and> sint (next_assigned_id st) \<le> sint n
          \<and> \<not> taken (local (members_tables st)) n
          \<and> (\<forall>i. sint (next_assigned_id st) \<le> sint i \<and> sint i < sint n \<longrightarrow>
                 taken (local (members_tables st)) i))
       \<or> (get_or_assign_node_id uuid st = (None, st\<lparr>next_assigned_id := INT_MAX\<rparr>)
          \<and> (\<forall>i. sint (next_assigned_id st) \<le> sint i \<and> sint i < sint INT_MAX \<longrightarrow>
                 taken (local (members_tables st)) i))"
proof -
  obtain ex k where sk: "skip_taken_ids (local (members_tables st)) (next_assigned_id st) = (ex, k)"
    by (cases "skip_taken_ids (local (members_tables st)) (next_assigned_id st)")
  note sp = skip_taken_ids_spec [OF sk]
  show ?thesis
  proof (cases "ex \<or> k = INT_MAX")
    case True
    then have k: "k = INT_MAX" using sp by (auto split: if_splits)
    have "get_or_assign_node_id uuid st = (None, st\<lparr>next_assigned_id := INT_MAX\<rparr>)"
      using assms sk k by (cases ex) (simp_all add: get_or_assign_node_id_def)
    with sp k show ?thesis by simp
  next
    case False
    then have "get_or_assign_node_id uuid st =
        (Some k, st\<lparr>id_by_uuid := (id_by_uuid st)(uuid \<mapsto> k), next_assigned_id := k + 1\<rparr>)"
      using assms sk by (simp add: get_or_assign_node_id_def)
    with sp False show ?thesis by auto
  qed
qed

subsection \<open>Evaluating the examples\<close>

lemma uuid_a_neq_uuid_b: "uuid_a \<noteq> uuid_b"
  by (simp add: uuid_a_def uuid_b_def)

lemmas fixture_defs = manager_with_def table_of_def broker_of_def metadata_of_def
  contains_def get_removed_node_metadata_ref_def get_node_metadata_ref_def

lemmas registry_eval = try_register_node_id_def unassigned_node_id_def
  uuid_a_neq_uuid_b uuid_a_neq_uuid_b [symmetric] get_or_assign_node_id_def
  skip_taken_ids_step skip_taken_ids_free taken_def fixture_defs INT_MAX_def

subsection \<open>Registering a requested id\<close>

text \<open>
  C4. At a registry that binds \<open>uuid_a\<close> to id 5, registering id 5 for the unknown
  \<open>uuid_b\<close> answers true and binds \<open>uuid_b\<close> to 5 as well: the requested id is held
  by another UUID and the call does not answer false.
\<close>

theorem try_register_node_id_held_id:
  "try_register_node_id 5 uuid_b ((manager_with (table_of [] []))\<lparr>id_by_uuid := [uuid_a \<mapsto> 5]\<rparr>)
     = Some (True, (manager_with (table_of [] []))\<lparr>id_by_uuid := [uuid_a \<mapsto> 5, uuid_b \<mapsto> 5]\<rparr>)"
  by (simp add: registry_eval)

subsection \<open>Bindings are kept and the counter does not go back\<close>

lemma try_register_node_id_keeps:
  assumes "try_register_node_id i uuid st = Some (r, st')"
  shows "id_by_uuid st \<subseteq>\<^sub>m id_by_uuid st' \<and> next_assigned_id st' = next_assigned_id st"
  using assms
  by (auto simp: try_register_node_id_def map_le_def split: if_splits option.splits)

lemma get_or_assign_node_id_keeps:
  "id_by_uuid st \<subseteq>\<^sub>m id_by_uuid (snd (get_or_assign_node_id uuid st)) \<and>
   sint (next_assigned_id st) \<le> sint (next_assigned_id (snd (get_or_assign_node_id uuid st)))"
proof (cases "id_by_uuid st uuid")
  case (Some n)
  then show ?thesis by (simp add: get_or_assign_bound)
next
  case None
  from get_or_assign_unbound [OF None] show ?thesis
  proof (elim disjE exE conjE)
    fix n
    assume g: "get_or_assign_node_id uuid st =
        (Some n, st\<lparr>id_by_uuid := (id_by_uuid st)(uuid \<mapsto> n), next_assigned_id := n + 1\<rparr>)"
      and n: "n \<noteq> INT_MAX" and le: "sint (next_assigned_id st) \<le> sint n"
    have "id_by_uuid st \<subseteq>\<^sub>m (id_by_uuid st)(uuid \<mapsto> n)"
      using None by (auto simp: map_le_def)
    then show ?thesis
      using g le sint_succ [OF n] by simp
  next
    assume g: "get_or_assign_node_id uuid st = (None, st\<lparr>next_assigned_id := INT_MAX\<rparr>)"
    show ?thesis
      using g sint_node_id_range [of "next_assigned_id st"] by (simp add: sint_INT_MAX)
  qed
qed

lemma run_registry_calls_keeps:
  "run_registry_calls calls st = Some st' \<Longrightarrow>
     id_by_uuid st \<subseteq>\<^sub>m id_by_uuid st' \<and> sint (next_assigned_id st) \<le> sint (next_assigned_id st')"
proof (induction calls st rule: run_registry_calls.induct)
  case (1 st)
  then show ?case by simp
next
  case (2 i uuid calls st)
  from "2.prems" obtain r st1 where t: "try_register_node_id i uuid st = Some (r, st1)"
    and run: "run_registry_calls calls st1 = Some st'"
    by (auto split: option.splits)
  from "2.IH" [OF t refl run] try_register_node_id_keeps [OF t] show ?case
    by (auto intro: map_le_trans)
next
  case (3 uuid calls st)
  from "3.prems" have run: "run_registry_calls calls (snd (get_or_assign_node_id uuid st)) = Some st'"
    by simp
  from "3.IH" [OF run] get_or_assign_node_id_keeps [of st uuid] show ?case
    by (auto intro: map_le_trans)
next
  case (4 tables calls st)
  from "4.prems" have run: "run_registry_calls calls (st\<lparr>members_tables := tables\<rparr>) = Some st'"
    by simp
  from "4.IH" [OF run] show ?case by simp
qed

lemma get_or_assign_node_id_binds:
  assumes "fst (get_or_assign_node_id uuid st) = Some n"
  shows "id_by_uuid (snd (get_or_assign_node_id uuid st)) uuid = Some n"
proof (cases "id_by_uuid st uuid")
  case (Some k)
  with assms show ?thesis by (simp add: get_or_assign_bound)
next
  case None
  from get_or_assign_unbound [OF None] assms show ?thesis by auto
qed

subsection \<open>Assigning ids\<close>

text \<open>
  C10. If a call of \<^verbatim>\<open>get_or_assign_node_id\<close> answers id \<open>n\<close> for a UUID, then after any
  further registry calls (with the members tables and tombstones replaced at will in
  between) a call for the same UUID answers \<open>n\<close> again and changes nothing: neither the
  registry nor \<^verbatim>\<open>_next_assigned_id\<close> nor any other member.
\<close>

theorem get_or_assign_node_id_idempotent:
  assumes "fst (get_or_assign_node_id uuid st) = Some n"
    and "run_registry_calls calls (snd (get_or_assign_node_id uuid st)) = Some st'"
  shows "get_or_assign_node_id uuid st' = (Some n, st')"
proof -
  have "id_by_uuid (snd (get_or_assign_node_id uuid st)) uuid = Some n"
    using assms(1) by (rule get_or_assign_node_id_binds)
  moreover have "id_by_uuid (snd (get_or_assign_node_id uuid st)) \<subseteq>\<^sub>m id_by_uuid st'"
    using run_registry_calls_keeps [OF assms(2)] by simp
  ultimately have "id_by_uuid st' uuid = Some n"
    by (auto simp: map_le_def dom_def)
  then show ?thesis by (rule get_or_assign_bound)
qed

theorem get_or_assign_node_id_idempotent_witness:
  "fst (get_or_assign_node_id uuid_a (manager_with (table_of [broker_of 1 9092 4] [3]))) = Some 2
   \<and> run_registry_calls
        [Members_tables_change (Sharded (table_of [broker_of 2 9092 4] [1]) []),
         Try_register 7 uuid_b, Get_or_assign uuid_b]
        (snd (get_or_assign_node_id uuid_a (manager_with (table_of [broker_of 1 9092 4] [3]))))
      = Some ((manager_with (table_of [broker_of 2 9092 4] [1]))
               \<lparr>id_by_uuid := [uuid_a \<mapsto> 2, uuid_b \<mapsto> 7], next_assigned_id := 3\<rparr>)
   \<and> get_or_assign_node_id uuid_a
        ((manager_with (table_of [broker_of 2 9092 4] [1]))
           \<lparr>id_by_uuid := [uuid_a \<mapsto> 2, uuid_b \<mapsto> 7], next_assigned_id := 3\<rparr>)
      = (Some 2, (manager_with (table_of [broker_of 2 9092 4] [1]))
           \<lparr>id_by_uuid := [uuid_a \<mapsto> 2, uuid_b \<mapsto> 7], next_assigned_id := 3\<rparr>)"
proof -
  have a: "fst (get_or_assign_node_id uuid_a (manager_with (table_of [broker_of 1 9092 4] [3]))) = Some 2"
    by (simp add: registry_eval)
  have b: "run_registry_calls
        [Members_tables_change (Sharded (table_of [broker_of 2 9092 4] [1]) []),
         Try_register 7 uuid_b, Get_or_assign uuid_b]
        (snd (get_or_assign_node_id uuid_a (manager_with (table_of [broker_of 1 9092 4] [3]))))
      = Some ((manager_with (table_of [broker_of 2 9092 4] [1]))
               \<lparr>id_by_uuid := [uuid_a \<mapsto> 2, uuid_b \<mapsto> 7], next_assigned_id := 3\<rparr>)"
    by (simp add: registry_eval)
  from get_or_assign_node_id_idempotent [OF a b] a b show ?thesis by simp
qed

text \<open>
  C3 (amended). A bound UUID gets its id back and nothing changes. For an unbound UUID the
  counter walks up from its current value over the ids that are taken (held by the members
  table or tombstoned) and stops at the first id that is not: ids above that one are not
  looked at. If that id is below \<^verbatim>\<open>INT_MAX\<close> the UUID is bound to it, it is returned and
  the counter is left one above it. If every id from the counter's value up to
  \<^verbatim>\<open>INT_MAX - 1\<close> is taken, the answer is \<^verbatim>\<open>std::nullopt\<close>, nothing is bound and the counter
  is left at \<^verbatim>\<open>INT_MAX\<close>.
\<close>

theorem get_or_assign_node_id_spec:
  "(case id_by_uuid st uuid of
      Some bound \<Rightarrow> get_or_assign_node_id uuid st = (Some bound, st)
    | None \<Rightarrow>
        (case fst (get_or_assign_node_id uuid st) of
           Some n \<Rightarrow>
             snd (get_or_assign_node_id uuid st) =
               st\<lparr>id_by_uuid := (id_by_uuid st)(uuid \<mapsto> n), next_assigned_id := n + 1\<rparr>
             \<and> sint (next_assigned_id st) \<le> sint n \<and> sint n < sint INT_MAX
             \<and> \<not> taken (local (members_tables st)) n
             \<and> (\<forall>i. sint (next_assigned_id st) \<le> sint i \<and> sint i < sint n \<longrightarrow>
                    taken (local (members_tables st)) i)
         | None \<Rightarrow>
             snd (get_or_assign_node_id uuid st) = st\<lparr>next_assigned_id := INT_MAX\<rparr>
             \<and> (\<forall>i. sint (next_assigned_id st) \<le> sint i \<and> sint i < sint INT_MAX \<longrightarrow>
                    taken (local (members_tables st)) i)))"
proof (cases "id_by_uuid st uuid")
  case (Some bound)
  then show ?thesis by (simp add: get_or_assign_bound)
next
  case None
  from get_or_assign_unbound [OF None] show ?thesis
  proof (elim disjE exE conjE)
    fix n
    assume g: "get_or_assign_node_id uuid st =
        (Some n, st\<lparr>id_by_uuid := (id_by_uuid st)(uuid \<mapsto> n), next_assigned_id := n + 1\<rparr>)"
      and n: "n \<noteq> INT_MAX" and le: "sint (next_assigned_id st) \<le> sint n"
      and free: "\<not> taken (local (members_tables st)) n"
      and below: "\<forall>i. sint (next_assigned_id st) \<le> sint i \<and> sint i < sint n \<longrightarrow>
                 taken (local (members_tables st)) i"
    have "sint n < sint INT_MAX"
      using sint_below_INT_MAX [OF n] by (simp add: sint_INT_MAX)
    with g le free below None show ?thesis by simp
  next
    assume g: "get_or_assign_node_id uuid st = (None, st\<lparr>next_assigned_id := INT_MAX\<rparr>)"
      and all: "\<forall>i. sint (next_assigned_id st) \<le> sint i \<and> sint i < sint INT_MAX \<longrightarrow>
                 taken (local (members_tables st)) i"
    with None show ?thesis by simp
  qed
qed

text \<open>
  The theorem at three managers: one that binds \<open>uuid_a\<close> already; one with broker 1 in
  the table and a tombstone for id 3, where id 2 is assigned; one whose counter stands at
  \<^verbatim>\<open>INT_MAX\<close>.
\<close>

theorem get_or_assign_node_id_spec_witness:
  "get_or_assign_node_id uuid_a ((manager_with (table_of [] []))\<lparr>id_by_uuid := [uuid_a \<mapsto> 5]\<rparr>)
     = (Some 5, (manager_with (table_of [] []))\<lparr>id_by_uuid := [uuid_a \<mapsto> 5]\<rparr>)
   \<and> fst (get_or_assign_node_id uuid_a (manager_with (table_of [broker_of 1 9092 4] [3]))) = Some 2
   \<and> snd (get_or_assign_node_id uuid_a (manager_with (table_of [broker_of 1 9092 4] [3])))
       = (manager_with (table_of [broker_of 1 9092 4] [3]))
           \<lparr>id_by_uuid := [uuid_a \<mapsto> 2], next_assigned_id := 2 + 1\<rparr>
   \<and> \<not> taken (table_of [broker_of 1 9092 4] [3]) 2
   \<and> taken (table_of [broker_of 1 9092 4] [3]) 1
   \<and> fst (get_or_assign_node_id uuid_a ((manager_with (table_of [] []))\<lparr>next_assigned_id := INT_MAX\<rparr>))
       = None
   \<and> snd (get_or_assign_node_id uuid_a ((manager_with (table_of [] []))\<lparr>next_assigned_id := INT_MAX\<rparr>))
       = (manager_with (table_of [] []))\<lparr>next_assigned_id := INT_MAX\<rparr>"
proof -
  let ?bound = "(manager_with (table_of [] []))\<lparr>id_by_uuid := [uuid_a \<mapsto> 5]\<rparr>"
  let ?m = "manager_with (table_of [broker_of 1 9092 4] [3])"
  let ?full = "(manager_with (table_of [] []))\<lparr>next_assigned_id := INT_MAX\<rparr>"
  have b: "id_by_uuid ?bound uuid_a = Some 5"
    by (simp add: manager_with_def)
  have u: "id_by_uuid ?m uuid_a = None" "local (members_tables ?m) = table_of [broker_of 1 9092 4] [3]"
    "next_assigned_id ?m = 1"
    by (simp_all add: manager_with_def)
  have r: "fst (get_or_assign_node_id uuid_a ?m) = Some 2"
    by (simp add: registry_eval)
  have f: "id_by_uuid ?full uuid_a = None"
    by (simp add: manager_with_def)
  have e: "fst (get_or_assign_node_id uuid_a ?full) = None"
    by (simp add: get_or_assign_node_id_def skip_taken_ids_free taken_def fixture_defs)
  have emp: "id_by_uuid ?m = Map.empty"
    by (simp add: manager_with_def)
  from get_or_assign_node_id_spec [where st = "?bound" and uuid = uuid_a] b
  have 1: "get_or_assign_node_id uuid_a ?bound = (Some 5, ?bound)" by simp
  from get_or_assign_node_id_spec [where st = "?m" and uuid = uuid_a] u r
  have s: "snd (get_or_assign_node_id uuid_a ?m) = ?m\<lparr>id_by_uuid := [uuid_a \<mapsto> 2], next_assigned_id := 2 + 1\<rparr>
     \<and> \<not> taken (table_of [broker_of 1 9092 4] [3]) 2
     \<and> (\<forall>i. 1 \<le> sint i \<and> sint i < 2 \<longrightarrow> taken (table_of [broker_of 1 9092 4] [3]) i)"
    by (simp add: emp)
  then have "taken (table_of [broker_of 1 9092 4] [3]) 1"
    by (elim conjE) (drule spec [of _ 1], simp)
  with s have 2: "snd (get_or_assign_node_id uuid_a ?m) = ?m\<lparr>id_by_uuid := [uuid_a \<mapsto> 2], next_assigned_id := 2 + 1\<rparr>
     \<and> \<not> taken (table_of [broker_of 1 9092 4] [3]) 2 \<and> taken (table_of [broker_of 1 9092 4] [3]) 1"
    by simp
  from get_or_assign_node_id_spec [where st = "?full" and uuid = uuid_a] f e
  have 3: "snd (get_or_assign_node_id uuid_a ?full) = ?full" by simp
  from 1 2 3 r e show ?thesis by simp
qed

text \<open>
  C3 as stated fails: with broker 1 in the table and a tombstone for id 3, the counter
  starts at 1, id 2 is assigned and the counter is left at 3. Id 3 is tombstoned and the
  counter has not moved past it; the assigned id is below it.
\<close>

theorem get_or_assign_node_id_not_past_every_taken_id:
  "get_or_assign_node_id uuid_a (manager_with (table_of [broker_of 1 9092 4] [3]))
     = (Some 2, (manager_with (table_of [broker_of 1 9092 4] [3]))
                  \<lparr>id_by_uuid := [uuid_a \<mapsto> 2], next_assigned_id := 3\<rparr>)
   \<and> get_removed_node_metadata_ref (table_of [broker_of 1 9092 4] [3]) 3 \<noteq> None
   \<and> \<not> sint (3 :: node_id) < sint (3 :: node_id)
   \<and> sint (2 :: node_id) < sint (3 :: node_id)"
  by (simp add: registry_eval)

text \<open>
  C2 (amended). Along every sequence of \<^verbatim>\<open>try_register_node_id\<close> and
  \<^verbatim>\<open>get_or_assign_node_id\<close> calls from the constructor's registry, with the members
  tables changing at will in between: a binding, once made, is never changed or removed
  (each UUID has at most one id, and keeps it); \<^verbatim>\<open>_next_assigned_id\<close> is at least 1 and
  never decreases; and an id that \<^verbatim>\<open>get_or_assign_node_id\<close> newly binds was neither in the
  members table nor tombstoned when it was chosen, stays bound to its UUID and is strictly
  below \<^verbatim>\<open>_next_assigned_id\<close> in every later state.
\<close>

theorem registry_calls_invariant:
  assumes "initial_registry st0"
    and "run_registry_calls calls1 st0 = Some st1"
    and "run_registry_calls calls2 st1 = Some st2"
  shows "1 \<le> sint (next_assigned_id st1)
       \<and> sint (next_assigned_id st1) \<le> sint (next_assigned_id st2)
       \<and> id_by_uuid st1 \<subseteq>\<^sub>m id_by_uuid st2
       \<and> (\<forall>uuid n rest.
            calls2 = Get_or_assign uuid # rest \<and> id_by_uuid st1 uuid = None
              \<and> fst (get_or_assign_node_id uuid st1) = Some n \<longrightarrow>
            \<not> taken (local (members_tables st1)) n
              \<and> id_by_uuid st2 uuid = Some n
              \<and> sint n < sint (next_assigned_id st2))"
proof -
  have "sint (next_assigned_id st0) \<le> sint (next_assigned_id st1)"
    using run_registry_calls_keeps [OF assms(2)] by simp
  moreover have "sint (next_assigned_id st0) = 1"
    using assms(1) by (simp add: initial_registry_def)
  ultimately have one: "1 \<le> sint (next_assigned_id st1)"
    by simp
  have keeps: "sint (next_assigned_id st1) \<le> sint (next_assigned_id st2)
      \<and> id_by_uuid st1 \<subseteq>\<^sub>m id_by_uuid st2"
    using run_registry_calls_keeps [OF assms(3)] by simp
  have assigned: "\<not> taken (local (members_tables st1)) n
      \<and> id_by_uuid st2 uuid = Some n \<and> sint n < sint (next_assigned_id st2)"
    if c: "calls2 = Get_or_assign uuid # rest" and u: "id_by_uuid st1 uuid = None"
      and f: "fst (get_or_assign_node_id uuid st1) = Some n"
    for uuid n rest
  proof -
    let ?st = "snd (get_or_assign_node_id uuid st1)"
    have run: "run_registry_calls rest ?st = Some st2"
      using assms(3) c by simp
    from get_or_assign_unbound [OF u] f
    have g: "?st = st1\<lparr>id_by_uuid := (id_by_uuid st1)(uuid \<mapsto> n), next_assigned_id := n + 1\<rparr>"
      and n: "n \<noteq> INT_MAX" and free: "\<not> taken (local (members_tables st1)) n"
      by auto
    have "sint (next_assigned_id ?st) = sint n + 1"
      using g sint_succ [OF n] by simp
    moreover have "sint (next_assigned_id ?st) \<le> sint (next_assigned_id st2)"
      using run_registry_calls_keeps [OF run] by simp
    ultimately have lt: "sint n < sint (next_assigned_id st2)"
      by simp
    have "id_by_uuid ?st uuid = Some n"
      using f by (rule get_or_assign_node_id_binds)
    moreover have "id_by_uuid ?st \<subseteq>\<^sub>m id_by_uuid st2"
      using run_registry_calls_keeps [OF run] by simp
    ultimately have "id_by_uuid st2 uuid = Some n"
      by (auto simp: map_le_def dom_def)
    with free lt show ?thesis by simp
  qed
  from one keeps assigned show ?thesis by blast
qed

theorem registry_calls_invariant_witness:
  "initial_registry (manager_with (table_of [broker_of 1 9092 4] [3]))
   \<and> run_registry_calls [Try_register 5 uuid_a] (manager_with (table_of [broker_of 1 9092 4] [3]))
       = Some ((manager_with (table_of [broker_of 1 9092 4] [3]))\<lparr>id_by_uuid := [uuid_a \<mapsto> 5]\<rparr>)
   \<and> run_registry_calls [Get_or_assign uuid_b, Try_register 9 uuid_a]
        ((manager_with (table_of [broker_of 1 9092 4] [3]))\<lparr>id_by_uuid := [uuid_a \<mapsto> 5]\<rparr>)
       = Some ((manager_with (table_of [broker_of 1 9092 4] [3]))
                 \<lparr>id_by_uuid := [uuid_a \<mapsto> 5, uuid_b \<mapsto> 2], next_assigned_id := 3\<rparr>)
   \<and> [uuid_a \<mapsto> 5] \<subseteq>\<^sub>m [uuid_a \<mapsto> 5, uuid_b \<mapsto> (2 :: node_id)]
   \<and> \<not> taken (table_of [broker_of 1 9092 4] [3]) 2
   \<and> sint (2 :: node_id) < sint (3 :: node_id)"
proof -
  let ?s0 = "manager_with (table_of [broker_of 1 9092 4] [3])"
  let ?s1 = "?s0\<lparr>id_by_uuid := [uuid_a \<mapsto> 5]\<rparr>"
  let ?s2 = "?s0\<lparr>id_by_uuid := [uuid_a \<mapsto> 5, uuid_b \<mapsto> 2], next_assigned_id := 3\<rparr>"
  have i: "initial_registry ?s0"
    by (simp add: initial_registry_def manager_with_def)
  have a: "run_registry_calls [Try_register 5 uuid_a] ?s0 = Some ?s1"
    by (simp add: registry_eval)
  have b: "run_registry_calls [Get_or_assign uuid_b, Try_register 9 uuid_a] ?s1 = Some ?s2"
    by (simp add: registry_eval)
  have u: "id_by_uuid ?s1 uuid_b = None"
    by (simp add: manager_with_def uuid_a_neq_uuid_b [symmetric])
  have f: "fst (get_or_assign_node_id uuid_b ?s1) = Some 2"
    by (simp add: registry_eval)
  have l: "local (members_tables ?s1) = table_of [broker_of 1 9092 4] [3]"
    "id_by_uuid ?s1 = [uuid_a \<mapsto> 5]" "id_by_uuid ?s2 = [uuid_a \<mapsto> 5, uuid_b \<mapsto> 2]"
    "next_assigned_id ?s2 = 3"
    by (simp_all add: manager_with_def)
  from registry_calls_invariant [OF i a b]
  have "id_by_uuid ?s1 \<subseteq>\<^sub>m id_by_uuid ?s2
     \<and> (\<not> taken (local (members_tables ?s1)) 2 \<and> sint (2 :: node_id) < sint (next_assigned_id ?s2))"
    using u f by blast
  with i a b l show ?thesis by simp
qed

text \<open>
  C2 as stated fails: registering id 5 by hand leaves the counter at 1, below the bound id;
  and with broker 1 in the table and a tombstone for id 3, an assignment leaves the counter
  at 3, not above the tombstoned id.
\<close>

theorem registry_counter_not_above_ids:
  "initial_registry (manager_with (table_of [broker_of 1 9092 4] [3]))
   \<and> run_registry_calls [Try_register 5 uuid_a, Get_or_assign uuid_b]
        (manager_with (table_of [broker_of 1 9092 4] [3]))
       = Some ((manager_with (table_of [broker_of 1 9092 4] [3]))
                 \<lparr>id_by_uuid := [uuid_a \<mapsto> 5, uuid_b \<mapsto> 2], next_assigned_id := 3\<rparr>)
   \<and> \<not> sint (5 :: node_id) < sint (3 :: node_id)
   \<and> get_removed_node_metadata_ref (table_of [broker_of 1 9092 4] [3]) 3 \<noteq> None
   \<and> \<not> sint (3 :: node_id) < sint (3 :: node_id)"
  by (simp add: registry_eval initial_registry_def)

subsection \<open>Seeding the counter from the initial map\<close>

lemma sint_max_node_id: "sint (max_node_id a b) = max (sint a) (sint b)"
  by (simp add: max_node_id_def)

lemma seed_next_assigned_id_at_INT_MAX:
  "INT_MAX \<in> snd ` set initial \<Longrightarrow> seed_next_assigned_id initial n = INT_MAX"
  by (induction initial n rule: seed_next_assigned_id.induct) auto

lemma seed_next_assigned_id_below_INT_MAX:
  "INT_MAX \<notin> snd ` set initial \<Longrightarrow>
     sint (seed_next_assigned_id initial n) =
       Max (insert (sint n) ((\<lambda>i. sint i + 1) ` snd ` set initial))"
proof (induction initial n rule: seed_next_assigned_id.induct)
  case (1 n)
  then show ?case by simp
next
  case (2 uuid i rest n)
  from "2.prems" have i: "i \<noteq> INT_MAX" and rest: "INT_MAX \<notin> snd ` set rest"
    by auto
  let ?S = "(\<lambda>i. sint i + 1) ` snd ` set rest"
  have fin: "finite ?S" by simp
  have "sint (seed_next_assigned_id ((uuid, i) # rest) n) =
      Max (insert (sint (max_node_id n (i + 1))) ?S)"
    using "2.IH" [OF i rest] i by simp
  also have "sint (max_node_id n (i + 1)) = max (sint n) (sint i + 1)"
    using sint_succ [OF i] by (simp add: sint_max_node_id)
  also have "Max (insert (max (sint n) (sint i + 1)) ?S) =
      Max (insert (sint n) (insert (sint i + 1) ?S))"
  proof (cases "?S = {}")
    case True
    then show ?thesis by simp
  next
    case False
    with fin show ?thesis by (simp add: max.assoc)
  qed
  finally show ?case by simp
qed

text \<open>
  C6 (amended). \<^verbatim>\<open>apply_initial_node_uuid_map\<close> is rejected (the \<^verbatim>\<open>vassert\<close> fails) exactly
  when the registry already holds a binding. Otherwise it loads the map and sets
  \<^verbatim>\<open>_next_assigned_id\<close> to \<^verbatim>\<open>INT_MAX\<close> if some id of the map is \<^verbatim>\<open>INT_MAX\<close>, and else to the
  greatest of its current value and every id of the map plus one: at startup, where the
  counter is 1, that is \<open>max(1, max(ids) + 1)\<close>, and 1 for the empty map. After a load of a
  map that is not empty every later call is rejected.
\<close>

theorem apply_initial_node_uuid_map_spec:
  "(case apply_initial_node_uuid_map initial st of
      None \<Rightarrow> id_by_uuid st \<noteq> Map.empty
    | Some st' \<Rightarrow>
        id_by_uuid st = Map.empty
        \<and> st' = st\<lparr>next_assigned_id := next_assigned_id st', id_by_uuid := map_of initial\<rparr>
        \<and> sint (next_assigned_id st') =
            (if INT_MAX \<in> snd ` set initial then sint INT_MAX
             else Max (insert (sint (next_assigned_id st)) ((\<lambda>i. sint i + 1) ` snd ` set initial)))
        \<and> (if initial = [] then apply_initial_node_uuid_map again st' \<noteq> None
            else apply_initial_node_uuid_map again st' = None))"
proof (cases "id_by_uuid st = Map.empty")
  case False
  then show ?thesis by (simp add: apply_initial_node_uuid_map_def)
next
  case True
  let ?st' = "st\<lparr>next_assigned_id := seed_next_assigned_id initial (next_assigned_id st),
                 id_by_uuid := map_of initial\<rparr>"
  have r: "apply_initial_node_uuid_map initial st = Some ?st'"
    using True by (simp add: apply_initial_node_uuid_map_def)
  have n: "sint (next_assigned_id ?st') =
      (if INT_MAX \<in> snd ` set initial then sint INT_MAX
       else Max (insert (sint (next_assigned_id st)) ((\<lambda>i. sint i + 1) ` snd ` set initial)))"
    by (simp add: seed_next_assigned_id_at_INT_MAX seed_next_assigned_id_below_INT_MAX)
  have again: "if initial = [] then apply_initial_node_uuid_map again ?st' \<noteq> None
      else apply_initial_node_uuid_map again ?st' = None"
  proof (cases initial)
    case Nil
    then show ?thesis by (simp add: apply_initial_node_uuid_map_def)
  next
    case (Cons p rest)
    then have "map_of initial \<noteq> Map.empty"
      by (cases p) simp
    with Cons show ?thesis by (simp add: apply_initial_node_uuid_map_def)
  qed
  from r True n again show ?thesis by simp
qed

theorem apply_initial_node_uuid_map_spec_witness:
  "apply_initial_node_uuid_map [(uuid_a, 4), (uuid_b, 2)] (manager_with (table_of [] []))
     = Some ((manager_with (table_of [] []))
               \<lparr>next_assigned_id := 5, id_by_uuid := map_of [(uuid_a, 4), (uuid_b, 2)]\<rparr>)
   \<and> sint (5 :: node_id) = max 1 (max (4 + 1) (2 + 1))
   \<and> apply_initial_node_uuid_map [(uuid_a, 7)]
        ((manager_with (table_of [] []))
           \<lparr>next_assigned_id := 5, id_by_uuid := map_of [(uuid_a, 4), (uuid_b, 2)]\<rparr>) = None
   \<and> id_by_uuid ((manager_with (table_of [] []))
           \<lparr>next_assigned_id := 5, id_by_uuid := map_of [(uuid_a, 4), (uuid_b, 2)]\<rparr>) \<noteq> Map.empty"
proof -
  let ?s = "manager_with (table_of [] [])"
  let ?s' = "?s\<lparr>next_assigned_id := 5, id_by_uuid := map_of [(uuid_a, 4), (uuid_b, 2)]\<rparr>"
  have e: "apply_initial_node_uuid_map [(uuid_a, 4), (uuid_b, 2)] ?s = Some ?s'"
    by (simp add: apply_initial_node_uuid_map_def manager_with_def max_node_id_def INT_MAX_def)
  from apply_initial_node_uuid_map_spec [where initial = "[(uuid_a, 4), (uuid_b, 2)]" and st = ?s
      and again = "[(uuid_a, 7)]"] e
  have 1: "apply_initial_node_uuid_map [(uuid_a, 7)] ?s' = None"
    by simp
  from apply_initial_node_uuid_map_spec [where initial = "[(uuid_a, 7)]" and st = ?s'
      and again = "[]"] 1
  have 2: "id_by_uuid ?s' \<noteq> Map.empty"
    by simp
  from e 1 2 show ?thesis by simp
qed

text \<open>
  C6 as stated fails. A map that binds \<open>uuid_a\<close> to \<^verbatim>\<open>INT_MAX\<close> sets the counter to
  \<^verbatim>\<open>INT_MAX\<close>, which is neither \<open>max(1, INT_MAX + 1)\<close> over the integers nor what the
  32-bit sum gives. And after a load of the empty map a second call is not rejected.
\<close>

theorem apply_initial_node_uuid_map_not_max_plus_one:
  "apply_initial_node_uuid_map [(uuid_a, INT_MAX)] (manager_with (table_of [] []))
     = Some ((manager_with (table_of [] []))
               \<lparr>next_assigned_id := INT_MAX, id_by_uuid := [uuid_a \<mapsto> INT_MAX]\<rparr>)
   \<and> sint INT_MAX \<noteq> max 1 (sint INT_MAX + 1)
   \<and> INT_MAX \<noteq> max_node_id 1 (INT_MAX + 1)
   \<and> apply_initial_node_uuid_map [] (manager_with (table_of [] []))
       = Some (manager_with (table_of [] []))
   \<and> apply_initial_node_uuid_map [(uuid_b, 3)] (manager_with (table_of [] []))
       = Some ((manager_with (table_of [] []))
               \<lparr>next_assigned_id := 4, id_by_uuid := [uuid_b \<mapsto> 3]\<rparr>)"
  by (simp add: apply_initial_node_uuid_map_def manager_with_def max_node_id_def INT_MAX_def)

subsection \<open>Recommissioning and finished reallocations\<close>

text \<open>
  C8. A \<^verbatim>\<open>recommission_node\<close> command for an id that is among the learners of the old
  configuration, applied while the consensus configuration is joint, is answered with
  \<^verbatim>\<open>invalid_node_operation\<close> and the manager is left as it was: no members table of any
  shard is touched (the tables' \<^verbatim>\<open>apply\<close> is not called, whatever it would do), nothing is
  queued and the allocator is not called.
\<close>

theorem recommission_demoted_voter_rejected:
  assumes "get_state (config raft) = joint"
    and "old_config (config raft) = Some old"
    and "n \<in> vnode_id ` set (learners old)"
  shows "apply_update table_apply update_brokers raft (Command_batch off (Recommission_node_cmd n)) st
           = Some (Cluster invalid_node_operation, st)"
proof -
  have "find (\<lambda>vn. vnode_id vn = n) (learners old) \<noteq> None"
    using assms(3) by (auto simp: find_None_iff)
  with assms(1,2) show ?thesis
    by (simp add: apply_update_def Let_def)
qed

theorem recommission_demoted_voter_rejected_witness:
  "get_state (config joint_raft0) = joint
   \<and> old_config (config joint_raft0)
       = Some \<lparr>voters = [\<lparr>vnode_id = 0, revision = 0\<rparr>], learners = [\<lparr>vnode_id = 2, revision = 0\<rparr>]\<rparr>
   \<and> apply_update accepting_apply replacing_update_brokers joint_raft0
        (Command_batch 12 (Recommission_node_cmd 2))
        (manager_with (table_of [broker_of 0 33145 4, broker_of 2 33146 4] []))
       = Some (Cluster invalid_node_operation,
               manager_with (table_of [broker_of 0 33145 4, broker_of 2 33146 4] []))"
proof -
  let ?old = "\<lparr>voters = [\<lparr>vnode_id = 0, revision = 0\<rparr>], learners = [\<lparr>vnode_id = 2, revision = 0\<rparr>]\<rparr>"
  have a: "get_state (config joint_raft0) = joint"
    by (simp add: joint_raft0_def)
  have b: "old_config (config joint_raft0) = Some ?old"
    by (simp add: joint_raft0_def)
  have c: "(2 :: node_id) \<in> vnode_id ` set (learners ?old)"
    by simp
  from recommission_demoted_voter_rejected [OF a b c] a b show ?thesis
    by simp
qed

text \<open>
  C9. A \<^verbatim>\<open>finish_reallocations\<close> command, for any id, answers \<^verbatim>\<open>success\<close>; the manager
  after it is the manager before it with \<open>{id, reallocation_finished, offset}\<close> appended to
  the update queue. In particular the members tables of all shards are as before, whether
  they know the id or not.
\<close>

theorem finish_reallocations_only_enqueues:
  "apply_update table_apply update_brokers raft (Command_batch off (Finish_reallocations_cmd n)) st
     = Some (Cluster success,
         st\<lparr>update_queue := update_queue st @
               [\<lparr>update_id = n, update_type = reallocation_finished, update_at = off\<rparr>]\<rparr>)
   \<and> members_tables
        (snd (the (apply_update table_apply update_brokers raft
                     (Command_batch off (Finish_reallocations_cmd n)) st)))
       = members_tables st"
  by (simp add: apply_update_def push_eventually_def)


text \<open>The theorem at id 42, which the members table does not know.\<close>

theorem finish_reallocations_only_enqueues_witness:
  "apply_update accepting_apply replacing_update_brokers joint_raft0
     (Command_batch 17 (Finish_reallocations_cmd 42))
     (manager_with (table_of [broker_of 0 33145 4] []))
     = Some (Cluster success,
         (manager_with (table_of [broker_of 0 33145 4] []))
           \<lparr>update_queue := [\<lparr>update_id = 42, update_type = reallocation_finished, update_at = 17\<rparr>]\<rparr>)
   \<and> \<not> contains (table_of [broker_of 0 33145 4] []) 42"
proof -
  have "update_queue (manager_with (table_of [broker_of 0 33145 4] [])) = []"
    by (simp add: manager_with_def)
  moreover have "\<not> contains (table_of [broker_of 0 33145 4] []) 42"
    by (simp add: fixture_defs)
  ultimately show ?thesis
    using finish_reallocations_only_enqueues
      [of accepting_apply replacing_update_brokers joint_raft0 17 42
          "manager_with (table_of [broker_of 0 33145 4] [])"]
    by simp
qed

subsection \<open>Applying a raft configuration\<close>

lemma calculate_changed_nodes_allocator_calls:
  "calculate_changed_nodes cfg (st\<lparr>allocator_calls := c\<rparr>) = calculate_changed_nodes cfg st"
  by (simp add: calculate_changed_nodes_def)

lemma connection_cache_update_connections:
  "connection_cache (update_connections changed (st\<lparr>allocator_calls := c, members_tables := t\<rparr>))
     = connection_cache (update_connections changed st)"
  by (simp add: update_connections_def Let_def)

text \<open>
  C5 (amended). For a raft configuration applied at offset \<open>o\<close>:
  \<^verbatim>\<open>_last_connection_update_offset\<close> never decreases. When \<open>o\<close> is strictly greater than its
  previous value, the connection cache is reconciled with the changed nodes (computed
  against the members table as it was before the batch), the offset becomes \<open>o\<close>, and for
  each added broker, in the configuration's order, \<open>{id, added, o}\<close> is appended to the
  update queue. Otherwise neither the connection cache nor the offset changes.
\<close>

theorem handle_raft0_cfg_update_spec:
  "last_connection_update_offset st
     \<le> last_connection_update_offset (handle_raft0_cfg_update update_brokers cfg off st)
   \<and> (if last_connection_update_offset st < off
       then last_connection_update_offset (handle_raft0_cfg_update update_brokers cfg off st) = off
          \<and> connection_cache (handle_raft0_cfg_update update_brokers cfg off st)
              = connection_cache (update_connections (calculate_changed_nodes cfg st) st)
          \<and> update_queue (handle_raft0_cfg_update update_brokers cfg off st)
              = update_queue st @
                  map (\<lambda>b. \<lparr>update_id = broker_id b, update_type = added, update_at = off\<rparr>)
                    (cn_added (calculate_changed_nodes cfg st))
       else last_connection_update_offset (handle_raft0_cfg_update update_brokers cfg off st)
              = last_connection_update_offset st
          \<and> connection_cache (handle_raft0_cfg_update update_brokers cfg off st)
              = connection_cache st)"
proof (cases "last_connection_update_offset st < off")
  case True
  have q: "update_queue (update_connections changed s) = update_queue s" for changed s
    by (simp add: update_connections_def Let_def)
  from True show ?thesis
    by (simp add: handle_raft0_cfg_update_def Let_def calculate_changed_nodes_allocator_calls
        connection_cache_update_connections q)
next
  case False
  then show ?thesis
    by (simp add: handle_raft0_cfg_update_def Let_def)
qed

text \<open>
  The theorem where broker 5 joins a group of broker 0 (this node) at offset 7, the
  connections standing at offset 0.
\<close>

theorem handle_raft0_cfg_update_spec_witness:
  "last_connection_update_offset (manager_with (table_of [broker_of 0 33145 4] [])) < 7
   \<and> cn_added (calculate_changed_nodes (cfg_of [broker_of 0 33145 4, broker_of 5 33150 4])
         (manager_with (table_of [broker_of 0 33145 4] []))) = [broker_of 5 33150 4]
   \<and> last_connection_update_offset
        (handle_raft0_cfg_update replacing_update_brokers
           (cfg_of [broker_of 0 33145 4, broker_of 5 33150 4]) 7
           (manager_with (table_of [broker_of 0 33145 4] []))) = 7
   \<and> connection_cache
        (handle_raft0_cfg_update replacing_update_brokers
           (cfg_of [broker_of 0 33145 4, broker_of 5 33150 4]) 7
           (manager_with (table_of [broker_of 0 33145 4] [])))
       = [5 \<mapsto> \<lparr>host = ''redpanda'', port = 33150\<rparr>]
   \<and> update_queue
        (handle_raft0_cfg_update replacing_update_brokers
           (cfg_of [broker_of 0 33145 4, broker_of 5 33150 4]) 7
           (manager_with (table_of [broker_of 0 33145 4] [])))
       = [\<lparr>update_id = 5, update_type = added, update_at = 7\<rparr>]"
proof -
  let ?st = "manager_with (table_of [broker_of 0 33145 4] [])"
  let ?cfg = "cfg_of [broker_of 0 33145 4, broker_of 5 33150 4]"
  have l: "last_connection_update_offset ?st < 7"
    by (simp add: manager_with_def)
  have d: "calculate_changed_nodes ?cfg ?st
      = \<lparr>cn_added = [broker_of 5 33150 4], cn_updated = [], cn_removed = []\<rparr>"
    by (simp add: calculate_changed_nodes_def cfg_of_def contains_broker_def fixture_defs)
  have c: "connection_cache (update_connections
        \<lparr>cn_added = [broker_of 5 33150 4], cn_updated = [], cn_removed = []\<rparr> ?st)
      = [5 \<mapsto> \<lparr>host = ''redpanda'', port = 33150\<rparr>]"
    by (simp add: update_connections_def update_broker_client_def manager_with_def broker_of_def)
  have q: "update_queue ?st = []"
    by (simp add: manager_with_def)
  have b: "broker_id (broker_of 5 33150 4) = 5"
    by (simp add: broker_of_def)
  from handle_raft0_cfg_update_spec [of ?st replacing_update_brokers ?cfg 7] l
  show ?thesis
    by (simp add: d c q b)
qed

text \<open>
  C5 as stated fails: with the connections standing at offset 10, a configuration at offset
  7 that adds broker 5 pushes nothing on the update queue.
\<close>

theorem handle_raft0_cfg_update_stale_offset:
  "cn_added (calculate_changed_nodes (cfg_of [broker_of 0 33145 4, broker_of 5 33150 4])
       ((manager_with (table_of [broker_of 0 33145 4] []))\<lparr>last_connection_update_offset := 10\<rparr>))
     = [broker_of 5 33150 4]
   \<and> update_queue
        (handle_raft0_cfg_update replacing_update_brokers
           (cfg_of [broker_of 0 33145 4, broker_of 5 33150 4]) 7
           ((manager_with (table_of [broker_of 0 33145 4] []))\<lparr>last_connection_update_offset := 10\<rparr>))
       = []"
  by (simp add: handle_raft0_cfg_update_def calculate_changed_nodes_def cfg_of_def
      contains_broker_def fixture_defs invoke_on_all_def replacing_update_brokers_def)

subsection \<open>Validating a configuration update\<close>

lemma find_shared_endpoint:
  "(find (\<lambda>current_ep. list_ex (\<lambda>ep. current_ep = ep) new_eps) old_eps \<noteq> None)
     = (\<exists>ep \<in> set old_eps. ep \<in> set new_eps)"
  by (auto simp: find_None_iff list_ex_iff)

lemma check_result_configuration_iff:
  "(check_result_configuration current_brokers to_update \<noteq> None)
     = (\<exists>entry \<in> set current_brokers. conflicts_with to_update entry)"
proof (induction current_brokers to_update rule: check_result_configuration.induct)
  case (1 to_update)
  then show ?case by simp
next
  case (2 i current rest to_update)
  show ?case
  proof (cases "i = broker_id to_update")
    case True
    with "2.IH"(1) show ?thesis
      by (auto simp: conflicts_with_def)
  next
    case False
    note other = this
    show ?thesis
    proof (cases "rpc_address (broker current) = rpc_address to_update")
      case True
      with other show ?thesis by (simp add: conflicts_with_def)
    next
      case False
      note rpc = this
      let ?f = "find (\<lambda>current_ep. list_ex (\<lambda>ep. current_ep = ep) (kafka_advertised_listeners to_update))
                  (kafka_advertised_listeners (broker current))"
      show ?thesis
      proof (cases ?f)
        case None
        then have "\<not> (\<exists>ep \<in> set (kafka_advertised_listeners (broker current)).
                        ep \<in> set (kafka_advertised_listeners to_update))"
          using find_shared_endpoint [of "kafka_advertised_listeners to_update"
              "kafka_advertised_listeners (broker current)"] by simp
        with "2.IH"(2) [OF other rpc None] other rpc None show ?thesis
          by (simp add: conflicts_with_def)
      next
        case (Some ep)
        then have "\<exists>ep \<in> set (kafka_advertised_listeners (broker current)).
                        ep \<in> set (kafka_advertised_listeners to_update)"
          using find_shared_endpoint [of "kafka_advertised_listeners to_update"
              "kafka_advertised_listeners (broker current)"] by simp
        with other rpc Some show ?thesis
          by (simp add: conflicts_with_def)
      qed
    qed
  qed
qed

lemma rpc_result_not_invalid_configuration_update:
  "rpc_result r \<noteq> Inl (Cluster invalid_configuration_update)"
  by (simp add: rpc_result_def split: rpc_outcome.splits sum.splits)

text \<open>
  C7. For a request whose target is this node, \<^verbatim>\<open>handle_configuration_update_request\<close>
  answers \<^verbatim>\<open>invalid_configuration_update\<close> exactly when some broker of the members table
  conflicts with the updated broker: it has the same id and more cores than the update
  gives, or it has another id and the same RPC address, or it has another id and one of
  its advertised Kafka endpoints equals (name and address) one of the update's.
\<close>

theorem handle_configuration_update_request_invalid_iff:
  assumes "target_node req = broker_id (self st)"
  shows "(fst (handle_configuration_update_request raft env req st)
            = Inl (Cluster invalid_configuration_update))
       = (\<exists>entry \<in> set (nodes (local (members_tables st))). conflicts_with (node req) entry)"
proof (cases "check_result_configuration (nodes (local (members_tables st))) (node req)")
  case (Some err)
  then have "\<exists>entry \<in> set (nodes (local (members_tables st))). conflicts_with (node req) entry"
    using check_result_configuration_iff [of "nodes (local (members_tables st))" "node req"]
    by simp
  moreover have "fst (handle_configuration_update_request raft env req st)
      = Inl (Cluster invalid_configuration_update)"
    using assms Some by (simp add: handle_configuration_update_request_def)
  ultimately show ?thesis by simp
next
  case None
  then have no: "\<not> (\<exists>entry \<in> set (nodes (local (members_tables st))). conflicts_with (node req) entry)"
    using check_result_configuration_iff [of "nodes (local (members_tables st))" "node req"]
    by simp
  have "fst (handle_configuration_update_request raft env req st)
      \<noteq> Inl (Cluster invalid_configuration_update)"
    using assms None
    by (simp add: handle_configuration_update_request_def Let_def
        rpc_result_not_invalid_configuration_update split: option.splits)
  with no show ?thesis by simp
qed

text \<open>
  The theorem at a table that holds this node (broker 0) with 8 cores: an update of broker
  0 to 4 cores is refused, an update to 16 cores is not.
\<close>

theorem handle_configuration_update_request_invalid_iff_witness:
  "target_node \<lparr>node = broker_of 0 33145 4, target_node = 0\<rparr>
     = broker_id (self (manager_with (table_of [broker_of 0 33145 8] [])))
   \<and> fst (handle_configuration_update_request (raft0_led_by_self [broker_of 0 33145 8])
            calm_update_env \<lparr>node = broker_of 0 33145 4, target_node = 0\<rparr>
            (manager_with (table_of [broker_of 0 33145 8] [])))
       = Inl (Cluster invalid_configuration_update)
   \<and> conflicts_with (broker_of 0 33145 4) (0, metadata_of (broker_of 0 33145 8))
   \<and> fst (handle_configuration_update_request (raft0_led_by_self [broker_of 0 33145 8])
            calm_update_env \<lparr>node = broker_of 0 33145 16, target_node = 0\<rparr>
            (manager_with (table_of [broker_of 0 33145 8] [])))
       = Inr \<lparr>update_success = True\<rparr>
   \<and> \<not> conflicts_with (broker_of 0 33145 16) (0, metadata_of (broker_of 0 33145 8))"
proof -
  let ?st = "manager_with (table_of [broker_of 0 33145 8] [])"
  let ?raft = "raft0_led_by_self [broker_of 0 33145 8]"
  let ?less = "\<lparr>node = broker_of 0 33145 4, target_node = 0\<rparr>"
  let ?more = "\<lparr>node = broker_of 0 33145 16, target_node = 0\<rparr>"
  have t: "target_node ?less = broker_id (self ?st)" "target_node ?more = broker_id (self ?st)"
    by (simp_all add: manager_with_def broker_of_def)
  have n: "nodes (local (members_tables ?st)) = [(0, metadata_of (broker_of 0 33145 8))]"
    by (simp add: manager_with_def table_of_def broker_of_def)
  have c1: "conflicts_with (broker_of 0 33145 4) (0, metadata_of (broker_of 0 33145 8))"
    by (simp add: conflicts_with_def broker_of_def metadata_of_def)
  have c2: "\<not> conflicts_with (broker_of 0 33145 16) (0, metadata_of (broker_of 0 33145 8))"
    by (simp add: conflicts_with_def broker_of_def metadata_of_def)
  from handle_configuration_update_request_invalid_iff [OF t(1), of ?raft calm_update_env] n c1
  have 1: "fst (handle_configuration_update_request ?raft calm_update_env ?less ?st)
      = Inl (Cluster invalid_configuration_update)"
    by simp
  from handle_configuration_update_request_invalid_iff [OF t(2), of ?raft calm_update_env] n c2
  have 2: "fst (handle_configuration_update_request ?raft calm_update_env ?more ?st)
      \<noteq> Inl (Cluster invalid_configuration_update)"
    by simp
  have 3: "fst (handle_configuration_update_request ?raft calm_update_env ?more ?st)
      = Inr \<lparr>update_success = True\<rparr>"
    by (simp add: handle_configuration_update_request_def update_connections_def
        raft0_led_by_self_def calm_update_env_def fixture_defs)
  from t 1 c1 3 c2 show ?thesis by simp
qed

subsection \<open>Join requests of removed nodes\<close>

text \<open>
  C1 (amended). On the elected leader, with \<^verbatim>\<open>node_id_assignment\<close> active, a join request
  that carries a 16-byte UUID and a node id (not negative), and whose UUID is bound to an id
  with a tombstone in the members table, is answered \<open>{success = false, UNASSIGNED}\<close>, and
  the manager is left as it was.
\<close>

theorem handle_join_request_tombstoned:
  assumes "node_id_assignment_supported env"
    and "is_elected_leader raft"
    and "length (req_node_uuid req) = node_uuid_length"
    and "0 \<le> sint (broker_id (req_node req))"
    and "id_by_uuid st (req_node_uuid req) = Some bound"
    and "get_removed_node_metadata_ref (local (members_tables st)) bound \<noteq> None"
  shows "handle_join_request raft env req st
           = Some (Inr \<lparr>join_success = False, join_id = unassigned_node_id\<rparr>, st)"
proof -
  have "req_node_uuid req \<noteq> []"
    using assms(3) by (auto simp: node_uuid_length_def)
  with assms show ?thesis
    by (simp add: handle_join_request_def Let_def)
qed

theorem handle_join_request_tombstoned_witness:
  "node_id_assignment_supported (calm_join_env True)
   \<and> is_elected_leader (raft0_led_by_self [broker_of 0 33145 4])
   \<and> id_by_uuid manager_after_removal uuid_a = Some 1
   \<and> get_removed_node_metadata_ref (local (members_tables manager_after_removal)) 1 \<noteq> None
   \<and> handle_join_request (raft0_led_by_self [broker_of 0 33145 4]) (calm_join_env True)
        (join_request_of uuid_a (broker_of 1 33146 4)) manager_after_removal
       = Some (Inr \<lparr>join_success = False, join_id = unassigned_node_id\<rparr>, manager_after_removal)"
proof -
  let ?req = "join_request_of uuid_a (broker_of 1 33146 4)"
  have a: "node_id_assignment_supported (calm_join_env True)"
    by (simp add: calm_join_env_def)
  have b: "is_elected_leader (raft0_led_by_self [broker_of 0 33145 4])"
    by (simp add: raft0_led_by_self_def)
  have c: "length (req_node_uuid ?req) = node_uuid_length"
    by (simp add: join_request_of_def uuid_a_def node_uuid_length_def)
  have d: "0 \<le> sint (broker_id (req_node ?req))"
    by (simp add: join_request_of_def broker_of_def)
  have e: "id_by_uuid manager_after_removal (req_node_uuid ?req) = Some 1"
    by (simp add: join_request_of_def manager_after_removal_def)
  have f: "get_removed_node_metadata_ref (local (members_tables manager_after_removal)) 1 \<noteq> None"
    by (simp add: manager_after_removal_def fixture_defs)
  have u: "req_node_uuid ?req = uuid_a"
    by (simp add: join_request_of_def)
  from handle_join_request_tombstoned [OF a b c d e f] a b e f u show ?thesis
    by simp
qed

text \<open>
  C1 as stated fails: the same removed node asking without a node id (the id of its broker
  is \<^verbatim>\<open>UNASSIGNED\<close>) is answered \<open>{success = true, 1}\<close>, the tombstoned id.
\<close>

theorem handle_join_request_tombstoned_without_id:
  "id_by_uuid manager_after_removal uuid_a = Some 1
   \<and> get_removed_node_metadata_ref (local (members_tables manager_after_removal)) 1 \<noteq> None
   \<and> handle_join_request (raft0_led_by_self [broker_of 0 33145 4]) (calm_join_env True)
        (join_request_of uuid_a (broker_of unassigned_node_id 33146 4)) manager_after_removal
       = Some (Inr \<lparr>join_success = True, join_id = 1\<rparr>, manager_after_removal)"
  by (simp add: handle_join_request_def join_request_of_def manager_after_removal_def
      calm_join_env_def raft0_led_by_self_def uuid_a_def node_uuid_length_def
      unassigned_node_id_def fixture_defs)

end
